theory Spec2Isabelle
  imports Main
begin

section \<open>Python values\<close>

text \<open>
  The dictionaries of \<^verbatim>\<open>twitterOLLAMA.py\<close> are \<^verbatim>\<open>Dict[str, Any]\<close>. Their values are
  modelled as JSON-like values (floating-point numbers are left out); a dictionary is
  an association list read with \<^const>\<open>map_of\<close>.
\<close>

datatype pyval =
    PNone
  | PBool bool
  | PInt int
  | PStr string
  | PList "pyval list"
  | PDict "(string \<times> pyval) list"

type_synonym pydict = "(string \<times> pyval) list"

text \<open>Python's truth value of an object, as used by \<^verbatim>\<open>if x\<close> and \<^verbatim>\<open>not x\<close>.\<close>

fun truthy :: "pyval \<Rightarrow> bool" where
  "truthy PNone = False"
| "truthy (PBool b) = b"
| "truthy (PInt i) = (i \<noteq> 0)"
| "truthy (PStr s) = (s \<noteq> [])"
| "truthy (PList l) = (l \<noteq> [])"
| "truthy (PDict d) = (d \<noteq> [])"

fun type_name :: "pyval \<Rightarrow> string" where
  "type_name PNone = ''NoneType''"
| "type_name (PBool b) = ''bool''"
| "type_name (PInt i) = ''int''"
| "type_name (PStr s) = ''str''"
| "type_name (PList l) = ''list''"
| "type_name (PDict d) = ''dict''"

section \<open>Exceptions\<close>

text \<open>
  Every exception that the modelled code can meet. \<open>KeyError\<close> carries the missing key,
  the others carry their message. \<open>ExternalError\<close> is any exception raised inside an
  external collaborator.
\<close>

datatype exn =
    KeyError string
  | AttributeError string
  | TypeError string
  | ValueError string
  | ValidationError string
  | RuntimeError string
  | ExternalError string

definition quoted :: "string \<Rightarrow> string" where
  "quoted k = [CHR 0x27] @ k @ [CHR 0x27]"

text \<open>\<^verbatim>\<open>str(e)\<close>: a \<open>KeyError\<close> prints the \<^verbatim>\<open>repr\<close> of its key; the keys used here are plain
  identifiers, whose \<^verbatim>\<open>repr\<close> is the key between single quotes.\<close>

fun str_exn :: "exn \<Rightarrow> string" where
  "str_exn (KeyError k) = quoted k"
| "str_exn (AttributeError m) = m"
| "str_exn (TypeError m) = m"
| "str_exn (ValueError m) = m"
| "str_exn (ValidationError m) = m"
| "str_exn (RuntimeError m) = m"
| "str_exn (ExternalError m) = m"

section \<open>Dictionary and string operations\<close>

definition has_key :: "pydict \<Rightarrow> string \<Rightarrow> bool" where
  "has_key d k = (map_of d k \<noteq> None)"

text \<open>\<^verbatim>\<open>d[k]\<close> raises \<open>KeyError\<close> on a missing key.\<close>

definition getitem :: "pydict \<Rightarrow> string \<Rightarrow> exn + pyval" where
  "getitem d k = (case map_of d k of None \<Rightarrow> Inl (KeyError k) | Some v \<Rightarrow> Inr v)"

text \<open>\<^verbatim>\<open>d.get(k, default)\<close>; \<^verbatim>\<open>d.get(k)\<close> is \<open>get_default d k PNone\<close>.\<close>

definition get_default :: "pydict \<Rightarrow> string \<Rightarrow> pyval \<Rightarrow> pyval" where
  "get_default d k dflt = (case map_of d k of None \<Rightarrow> dflt | Some v \<Rightarrow> v)"

text \<open>
  \<^verbatim>\<open>x.lower()\<close> on an arbitrary value: only a string has the method. The method itself,
  \<^verbatim>\<open>str.lower\<close>, follows the case mapping of Unicode; it is the argument \<open>lw\<close>, about
  which nothing is assumed.
\<close>

fun py_lower :: "(string \<Rightarrow> string) \<Rightarrow> pyval \<Rightarrow> exn + string" where
  "py_lower lw (PStr s) = Inr (lw s)"
| "py_lower lw v =
     Inl (AttributeError (quoted (type_name v) @ '' object has no attribute '' @ quoted ''lower''))"

text \<open>\<^verbatim>\<open>sub in s\<close> for two strings: \<open>sub\<close> occurs in \<open>s\<close> as a contiguous block.\<close>

fun contains_str :: "string \<Rightarrow> string \<Rightarrow> bool" where
  "contains_str sub [] = (sub = [])"
| "contains_str sub (c # cs) = (take (length sub) (c # cs) = sub \<or> contains_str sub cs)"

text \<open>\<^verbatim>\<open>k in x\<close> for a string \<open>k\<close> and an arbitrary value \<open>x\<close>.\<close>

fun py_in :: "string \<Rightarrow> pyval \<Rightarrow> exn + bool" where
  "py_in k (PDict d) = Inr (has_key d k)"
| "py_in k (PStr s) = Inr (contains_str k s)"
| "py_in k (PList l) = Inr (List.member l (PStr k))"
| "py_in k v = Inl (TypeError (''argument of type '' @ quoted (type_name v) @ '' is not iterable''))"

text \<open>\<^verbatim>\<open>x[k]\<close> for a string \<open>k\<close> and an arbitrary value \<open>x\<close>.\<close>

fun py_subscript :: "pyval \<Rightarrow> string \<Rightarrow> exn + pyval" where
  "py_subscript (PDict d) k = getitem d k"
| "py_subscript (PStr s) k = Inl (TypeError (''string indices must be integers, not '' @ quoted ''str''))"
| "py_subscript (PList l) k = Inl (TypeError ''list indices must be integers or slices, not str'')"
| "py_subscript v k = Inl (TypeError (quoted (type_name v) @ '' object is not subscriptable''))"

section \<open>Data models\<close>

text \<open>\<^verbatim>\<open>TwitterRequest\<close>.\<close>

record request =
  operation :: string
  params :: pydict

text \<open>\<^verbatim>\<open>TwitterResponse\<close>; the \<^verbatim>\<open>timestamp\<close> field (the wall clock at construction) is not
  modelled.\<close>

record response =
  success :: bool
  data :: "pydict option"
  error :: "string option"

section \<open>Conversation context\<close>

text \<open>\<^verbatim>\<open>ConversationContext\<close>. A message is itself a dictionary. The timestamp read from
  the clock is an argument of the two operations.\<close>

record conversation_context =
  messages :: "pydict list"
  last_response :: "pydict option"

definition opt_dict :: "pydict option \<Rightarrow> pyval" where
  "opt_dict r = (case r of None \<Rightarrow> PNone | Some d \<Rightarrow> PDict d)"

definition add_user_message :: "conversation_context \<Rightarrow> string \<Rightarrow> string \<Rightarrow> conversation_context" where
  "add_user_message ctx message now =
     ctx\<lparr>messages := messages ctx @
       [[(''role'', PStr ''user''), (''content'', PStr message), (''timestamp'', PStr now)]]\<rparr>"

definition assistant_turn :: "string \<Rightarrow> pydict option \<Rightarrow> string \<Rightarrow> pydict" where
  "assistant_turn message api_response now =
     [(''role'', PStr ''assistant''), (''content'', PStr message),
      (''api_response'', opt_dict api_response), (''timestamp'', PStr now)]"

definition add_assistant_message ::
  "conversation_context \<Rightarrow> string \<Rightarrow> pydict option \<Rightarrow> string \<Rightarrow> conversation_context" where
  "add_assistant_message ctx message api_response now =
     ctx\<lparr>messages := messages ctx @ [assistant_turn message api_response now],
         last_response := api_response\<rparr>"

section \<open>External collaborators of the dispatcher\<close>

text \<open>
  The client \<^verbatim>\<open>twitterCLI.TwitterAPI\<close> is not part of the modelled file: it is a
  parameter. A \<open>call\<close> names one of its methods with the arguments passed; the client
  answers a call with a dictionary or raises. Within one \<^verbatim>\<open>execute\<close> no method is called
  twice, so a function of the call describes any client.
\<close>

datatype call =
    GetUserInfo pyval
  | GetUserTweets pyval pyval
  | SearchTweets pyval pyval
  | CreateTweet pyval pyval pyval
  | LikeTweet pyval
  | UnlikeTweet pyval
  | GetHomeTimeline pyval
  | DeleteTweet pyval

text \<open>
  \<open>api\<close> is the client. \<open>error_text\<close> is the message of the validation error that the
  \<^verbatim>\<open>pydantic\<close> model \<^verbatim>\<open>TwitterResponse\<close> raises for a value that its field
  \<^verbatim>\<open>error: Optional[str]\<close> rejects; its wording belongs to that library. \<open>str_lower\<close> is
  the method \<^verbatim>\<open>str.lower\<close> of the interpreter.
\<close>

record env =
  api :: "call \<Rightarrow> exn + pydict"
  error_text :: "pyval \<Rightarrow> string"
  str_lower :: "string \<Rightarrow> string"

section \<open>Dispatcher state\<close>

text \<open>
  \<open>user_id_cache\<close> is the attribute of \<^verbatim>\<open>StructuredTwitterAPI\<close>. \<open>calls\<close> is the log of
  the calls made to the client, oldest first: the test double's call record.
\<close>

record dstate =
  user_id_cache :: "string \<rightharpoonup> pyval"
  calls :: "call list"

definition invoke :: "env \<Rightarrow> call \<Rightarrow> dstate \<Rightarrow> (exn + pydict) \<times> dstate" where
  "invoke e c s = (api e c, s\<lparr>calls := calls s @ [c]\<rparr>)"

text \<open>\<^verbatim>\<open>self.user_id_cache.get(username)\<close>.\<close>

definition cache_get :: "dstate \<Rightarrow> string \<Rightarrow> pyval" where
  "cache_get s username = (case user_id_cache s username of None \<Rightarrow> PNone | Some v \<Rightarrow> v)"

section \<open>Dispatcher\<close>

type_synonym handler = "env \<Rightarrow> pydict \<Rightarrow> dstate \<Rightarrow> (exn + pydict) \<times> dstate"

text \<open>\<^verbatim>\<open>StructuredTwitterAPI._handle_tweets\<close>.\<close>

definition handle_tweets :: handler where
  "handle_tweets e p s =
     (case getitem p ''username'' of
        Inl x \<Rightarrow> (Inl x, s)
      | Inr u \<Rightarrow>
          (case py_lower (str_lower e) u of
             Inl x \<Rightarrow> (Inl x, s)
           | Inr username \<Rightarrow>
               (let user_id = cache_get s username in
                if \<not> truthy user_id then
                  (case invoke e (GetUserInfo (PStr username)) s of
                     (Inl x, s1) \<Rightarrow> (Inl x, s1)
                   | (Inr user_result, s1) \<Rightarrow>
                       if has_key user_result ''error'' then (Inr user_result, s1)
                       else
                         (case getitem user_result ''data'' of
                            Inl x \<Rightarrow> (Inl x, s1)
                          | Inr d \<Rightarrow>
                              (case py_subscript d ''id'' of
                                 Inl x \<Rightarrow> (Inl x, s1)
                               | Inr fresh \<Rightarrow>
                                   invoke e
                                     (GetUserTweets fresh (get_default p ''limit'' (PInt 10)))
                                     (s1\<lparr>user_id_cache := (user_id_cache s1)(username \<mapsto> fresh)\<rparr>))))
                else invoke e (GetUserTweets user_id (get_default p ''limit'' (PInt 10))) s)))"

text \<open>A handler that reads one required key and makes one call with it.\<close>

definition with_key :: "string \<Rightarrow> (pyval \<Rightarrow> pydict \<Rightarrow> call) \<Rightarrow> handler" where
  "with_key k mk e p s =
     (case getitem p k of Inl x \<Rightarrow> (Inl x, s) | Inr v \<Rightarrow> invoke e (mk v p) s)"

text \<open>The dictionary \<^verbatim>\<open>operation_map\<close> of \<^verbatim>\<open>execute\<close>, in the order of the source.\<close>

definition operation_map :: "(string \<times> handler) list" where
  "operation_map =
     [(''user'', with_key ''username'' (\<lambda>v p. GetUserInfo v)),
      (''tweets'', handle_tweets),
      (''search'', with_key ''query'' (\<lambda>v p. SearchTweets v (get_default p ''limit'' (PInt 10)))),
      (''post'', with_key ''text''
         (\<lambda>v p. CreateTweet v (get_default p ''media_path'' PNone)
                   (get_default p ''reply_to_id'' PNone))),
      (''like'', with_key ''tweet_id'' (\<lambda>v p. LikeTweet v)),
      (''unlike'', with_key ''tweet_id'' (\<lambda>v p. UnlikeTweet v)),
      (''timeline'', \<lambda>e p s. invoke e (GetHomeTimeline (get_default p ''limit'' (PInt 20))) s),
      (''delete'', with_key ''tweet_id'' (\<lambda>v p. DeleteTweet v))]"

text \<open>
  The constructor \<^verbatim>\<open>TwitterResponse(success=.., data=.., error=..)\<close>: the field
  \<^verbatim>\<open>error: Optional[str]\<close> takes \<^verbatim>\<open>None\<close> or a string and rejects anything else.
\<close>

definition TwitterResponse ::
  "env \<Rightarrow> bool \<Rightarrow> pydict option \<Rightarrow> pyval \<Rightarrow> exn + response" where
  "TwitterResponse e ok d err =
     (case err of
        PNone \<Rightarrow> Inr \<lparr>success = ok, data = d, error = None\<rparr>
      | PStr m \<Rightarrow> Inr \<lparr>success = ok, data = d, error = Some m\<rparr>
      | _ \<Rightarrow> Inl (ValidationError (error_text e err)))"

text \<open>
  Lines 89 to 92 of \<^verbatim>\<open>execute\<close>: the user id is cached after a \<^verbatim>\<open>user\<close> request. In the
  assignment the right-hand side \<^verbatim>\<open>result['data']['id']\<close> is evaluated before the key
  \<^verbatim>\<open>username.lower()\<close>.
\<close>

definition cache_user_id ::
  "env \<Rightarrow> request \<Rightarrow> pydict \<Rightarrow> dstate \<Rightarrow> (exn + unit) \<times> dstate" where
  "cache_user_id e req result s =
     (if operation req = ''user'' \<and> \<not> has_key result ''error'' \<and> has_key result ''data'' then
        (let username = get_default (params req) ''username'' PNone in
         if \<not> truthy username then (Inr (), s)
         else
           (case getitem result ''data'' of
              Inl x \<Rightarrow> (Inl x, s)
            | Inr d \<Rightarrow>
                (case py_in ''id'' d of
                   Inl x \<Rightarrow> (Inl x, s)
                 | Inr False \<Rightarrow> (Inr (), s)
                 | Inr True \<Rightarrow>
                     (case py_subscript d ''id'' of
                        Inl x \<Rightarrow> (Inl x, s)
                      | Inr v \<Rightarrow>
                          (case py_lower (str_lower e) username of
                             Inl x \<Rightarrow> (Inl x, s)
                           | Inr k \<Rightarrow>
                               (Inr (), s\<lparr>user_id_cache := (user_id_cache s)(k \<mapsto> v)\<rparr>))))))
      else (Inr (), s))"

text \<open>The body of the \<^verbatim>\<open>try\<close> block of \<^verbatim>\<open>execute\<close>: it returns a response or raises.\<close>

definition execute_try :: "env \<Rightarrow> request \<Rightarrow> dstate \<Rightarrow> (exn + response) \<times> dstate" where
  "execute_try e req s =
     (case map_of operation_map (operation req) of
        None \<Rightarrow>
          (TwitterResponse e False None (PStr (''Unsupported operation: '' @ operation req)), s)
      | Some h \<Rightarrow>
          (case h e (params req) s of
             (Inl x, s1) \<Rightarrow> (Inl x, s1)
           | (Inr result, s1) \<Rightarrow>
               (case cache_user_id e req result s1 of
                  (Inl x, s2) \<Rightarrow> (Inl x, s2)
                | (Inr u, s2) \<Rightarrow>
                    (TwitterResponse e (\<not> has_key result ''error'')
                       (if \<not> has_key result ''error'' then Some result else None)
                       (get_default result ''error'' PNone), s2))))"

text \<open>\<^verbatim>\<open>StructuredTwitterAPI.execute\<close>: the \<^verbatim>\<open>except Exception\<close> clause turns whatever the
  body raised into a response.\<close>

definition execute :: "env \<Rightarrow> request \<Rightarrow> dstate \<Rightarrow> response \<times> dstate" where
  "execute e req s =
     (case execute_try e req s of
        (Inr r, s1) \<Rightarrow> (r, s1)
      | (Inl x, s1) \<Rightarrow> (\<lparr>success = False, data = None, error = Some (str_exn x)\<rparr>, s1))"

section \<open>Translator\<close>

text \<open>
  The chat service, the JSON parser and the \<^verbatim>\<open>pydantic\<close> model \<^verbatim>\<open>TwitterRequest\<close> are
  external. One invocation of \<^verbatim>\<open>chat\<close> raises, gives a reply without usable content
  (a false response, one without \<^verbatim>\<open>message\<close>, or one whose content is empty), or gives a
  text. For a fixed query and context the service is the sequence of its replies,
  indexed by the number of earlier invocations.
\<close>

datatype chat_reply = ChatRaises exn | ChatNoContent | ChatContent string

text \<open>
  What \<^verbatim>\<open>json.loads\<close> does with a text: it returns the parsed value, raises a
  \<^verbatim>\<open>JSONDecodeError\<close> with a message, or raises another exception (a
  \<^verbatim>\<open>RecursionError\<close> on deep nesting, for one).
\<close>

datatype json_outcome = JsonValue pyval | JsonDecodeError string | JsonRaises exn

text \<open>
  \<open>json_loads\<close> is the parser. \<open>request_error_text\<close> is the message of the exception raised by
  \<^verbatim>\<open>TwitterRequest(**request_data)\<close> for a value of the wrong shape.
\<close>

record nlp_env =
  chat :: "nat \<Rightarrow> chat_reply"
  json_loads :: "string \<Rightarrow> json_outcome"
  request_error_text :: "pyval \<Rightarrow> string"

text \<open>
  \<^verbatim>\<open>TwitterRequest(**request_data)\<close>: unpacking needs a mapping; the model needs a string
  \<^verbatim>\<open>operation\<close> and a dictionary \<^verbatim>\<open>params\<close>, and ignores other keys.
\<close>

definition TwitterRequest :: "nlp_env \<Rightarrow> pyval \<Rightarrow> exn + request" where
  "TwitterRequest n v =
     (case v of
        PDict d \<Rightarrow>
          (case (map_of d ''operation'', map_of d ''params'') of
             (Some (PStr opn), Some (PDict p)) \<Rightarrow> Inr \<lparr>operation = opn, params = p\<rparr>
           | _ \<Rightarrow> Inl (ValidationError (request_error_text n v)))
      | _ \<Rightarrow> Inl (TypeError (request_error_text n v)))"

text \<open>The body of the outer \<^verbatim>\<open>try\<close> of the retry loop, at invocation number \<open>i\<close>.\<close>

definition attempt_once :: "nlp_env \<Rightarrow> nat \<Rightarrow> exn + request" where
  "attempt_once n i =
     (case chat n i of
        ChatRaises x \<Rightarrow> Inl x
      | ChatNoContent \<Rightarrow> Inl (ValueError ''Invalid response format from Ollama'')
      | ChatContent c \<Rightarrow>
          if c = [] then Inl (ValueError ''Invalid response format from Ollama'')
          else
            (case json_loads n c of
               JsonDecodeError m \<Rightarrow> Inl (ValueError (''Failed to parse JSON response: '' @ m))
             | JsonRaises x \<Rightarrow> Inl x
             | JsonValue v \<Rightarrow> TwitterRequest n v))"

text \<open>\<^verbatim>\<open>str\<close> of an integer.\<close>

fun str_nat :: "nat \<Rightarrow> string" where
  "str_nat k = (if k < 10 then [''0123456789'' ! k] else str_nat (k div 10) @ [''0123456789'' ! (k mod 10)])"

declare str_nat.simps [simp del]

definition str_int :: "int \<Rightarrow> string" where
  "str_int i = (if i < 0 then CHR ''-'' # str_nat (nat (- i)) else str_nat (nat i))"

text \<open>
  What a call of \<^verbatim>\<open>process_nlp_request\<close> ends with: a request, an exception, or
  \<^verbatim>\<open>None\<close> when control leaves the \<^verbatim>\<open>for\<close> loop at its end.
\<close>

datatype nlp_outcome = Returned request | Raised exn | ReturnedNone

text \<open>
  The loop \<^verbatim>\<open>for attempt in range(max_retries)\<close>, from \<open>attempt\<close> on, after \<open>invoked\<close>
  invocations of the service. The result carries the number of invocations made. The
  one-second sleep between attempts is not modelled.
\<close>

function nlp_loop :: "nlp_env \<Rightarrow> int \<Rightarrow> int \<Rightarrow> nat \<Rightarrow> nlp_outcome \<times> nat" where
  "nlp_loop n max_retries attempt invoked =
     (if attempt < max_retries then
        (case attempt_once n invoked of
           Inr req \<Rightarrow> (Returned req, Suc invoked)
         | Inl x \<Rightarrow>
             if attempt = max_retries - 1 then
               (Raised (RuntimeError (''Failed to process NLP request after '' @
                  str_int max_retries @ '' attempts: '' @ str_exn x)), Suc invoked)
             else nlp_loop n max_retries (attempt + 1) (Suc invoked))
      else (ReturnedNone, invoked))"
  by pat_completeness auto
termination
  by (relation "measure (\<lambda>(n, max_retries, attempt, invoked). nat (max_retries - attempt))") auto

declare nlp_loop.simps [simp del]

definition process_nlp_request :: "nlp_env \<Rightarrow> int \<Rightarrow> nlp_outcome \<times> nat" where
  "process_nlp_request n max_retries = nlp_loop n max_retries 0 0"

section \<open>Test doubles\<close>

text \<open>Stub clients, environments and states on which the theorems below are run.\<close>

text \<open>
  The stubs are run on usernames of ASCII characters, where \<^verbatim>\<open>str.lower\<close> changes the
  letters A to Z and nothing else.
\<close>

definition ascii_lower_char :: "char \<Rightarrow> char" where
  "ascii_lower_char c =
     (case map_of (zip ''ABCDEFGHIJKLMNOPQRSTUVWXYZ'' ''abcdefghijklmnopqrstuvwxyz'') c of
        None \<Rightarrow> c | Some d \<Rightarrow> d)"

definition ascii_lower :: "string \<Rightarrow> string" where
  "ascii_lower s = map ascii_lower_char s"

definition stub_error_text :: "pyval \<Rightarrow> string" where
  "stub_error_text v = ''1 validation error for TwitterResponse''"

definition env_of :: "(call \<Rightarrow> exn + pydict) \<Rightarrow> env" where
  "env_of a = \<lparr>api = a, error_text = stub_error_text, str_lower = ascii_lower\<rparr>"

text \<open>A client that answers every call with the payload of one user.\<close>

definition api_user_payload :: "call \<Rightarrow> exn + pydict" where
  "api_user_payload c = Inr [(''data'', PDict [(''id'', PStr ''44196397''), (''name'', PStr ''Elon'')])]"

text \<open>A client that finds a user and then lists no tweets.\<close>

definition api_lookup_then_tweets :: "call \<Rightarrow> exn + pydict" where
  "api_lookup_then_tweets c =
     (case c of
        GetUserInfo u \<Rightarrow> Inr [(''data'', PDict [(''id'', PStr ''7'')])]
      | _ \<Rightarrow> Inr [(''data'', PList [])])"

text \<open>A client whose payload has no content.\<close>

definition api_data_none :: "call \<Rightarrow> exn + pydict" where
  "api_data_none c = Inr [(''data'', PNone)]"

text \<open>Clients that report an error, as a string and as \<^verbatim>\<open>None\<close>.\<close>

definition api_error :: "call \<Rightarrow> exn + pydict" where
  "api_error c = Inr [(''error'', PStr ''User not found'')]"

definition api_error_none :: "call \<Rightarrow> exn + pydict" where
  "api_error_none c = Inr [(''error'', PNone)]"

text \<open>A client that reports an error as a number.\<close>

definition api_error_code :: "call \<Rightarrow> exn + pydict" where
  "api_error_code c = Inr [(''error'', PInt 404)]"

text \<open>A client that finds a user whose identifier is the empty string.\<close>

definition api_blank_id :: "call \<Rightarrow> exn + pydict" where
  "api_blank_id c =
     (case c of
        GetUserInfo u \<Rightarrow> Inr [(''data'', PDict [(''id'', PStr [])])]
      | _ \<Rightarrow> Inr [(''data'', PList [])])"

text \<open>A client that raises.\<close>

definition api_raises :: "call \<Rightarrow> exn + pydict" where
  "api_raises c = Inl (ExternalError ''connection reset'')"

definition empty_state :: dstate where
  "empty_state = \<lparr>user_id_cache = Map.empty, calls = []\<rparr>"

definition state_bob_cached :: dstate where
  "state_bob_cached = \<lparr>user_id_cache = [''bob'' \<mapsto> PStr ''7''], calls = []\<rparr>"

definition state_bob_blank :: dstate where
  "state_bob_blank = \<lparr>user_id_cache = [''bob'' \<mapsto> PStr []], calls = []\<rparr>"

text \<open>Stub chat services and a stub JSON parser that knows one well-formed text.\<close>

definition dq :: "string \<Rightarrow> string" where
  "dq t = [CHR 0x22] @ t @ [CHR 0x22]"

definition timeline_json :: string where
  "timeline_json =
     ''{'' @ dq ''operation'' @ '': '' @ dq ''timeline'' @ '', '' @ dq ''params'' @ '': {}}''"

definition stub_json_loads :: "string \<Rightarrow> json_outcome" where
  "stub_json_loads t =
     (if t = timeline_json
      then JsonValue (PDict [(''operation'', PStr ''timeline''), (''params'', PDict [])])
      else JsonDecodeError ''Expecting value: line 1 column 1 (char 0)'')"

definition chat_invalid_twice :: "nat \<Rightarrow> chat_reply" where
  "chat_invalid_twice i = (if i < 2 then ChatContent ''not json'' else ChatContent timeline_json)"

definition chat_always_invalid :: "nat \<Rightarrow> chat_reply" where
  "chat_always_invalid i = ChatContent ''not json''"

definition nlp_of :: "(nat \<Rightarrow> chat_reply) \<Rightarrow> nlp_env" where
  "nlp_of c = \<lparr>chat = c, json_loads = stub_json_loads, request_error_text = stub_error_text\<rparr>"

section \<open>Auxiliary facts\<close>

lemma map_of_operation_map_None:
  "opn \<notin> {''user'', ''tweets'', ''search'', ''post'', ''like'', ''unlike'', ''timeline'', ''delete''}
   \<Longrightarrow> map_of operation_map opn = None"
  by (simp add: operation_map_def)

lemma with_key_missing: "\<not> has_key p k \<Longrightarrow> with_key k mk e p s = (Inl (KeyError k), s)"
  by (simp add: with_key_def getitem_def has_key_def)

lemma handle_tweets_missing:
  "\<not> has_key p ''username'' \<Longrightarrow> handle_tweets e p s = (Inl (KeyError ''username''), s)"
  by (simp add: handle_tweets_def getitem_def has_key_def)

section \<open>Conversation context: appending an assistant turn\<close>

text \<open>
  Claim C9. For every context and every \<open>api_response\<close>, also an absent one,
  \<open>add_assistant_message\<close> appends exactly one turn, whose role is assistant, and sets
  \<open>last_response\<close> to that argument whatever it held before; called without a response
  after a call with one, it leaves \<open>last_response\<close> empty; the turns already present
  are kept as they were, in their order.
\<close>

theorem add_assistant_message_overwrites:
  "messages (add_assistant_message ctx m r t) = messages ctx @ [assistant_turn m r t]
   \<and> length (messages (add_assistant_message ctx m r t)) = Suc (length (messages ctx))
   \<and> take (length (messages ctx)) (messages (add_assistant_message ctx m r t)) = messages ctx
   \<and> map_of (assistant_turn m r t) ''role'' = Some (PStr ''assistant'')
   \<and> map_of (assistant_turn m r t) ''api_response'' = Some (opt_dict r)
   \<and> last_response (add_assistant_message ctx m r t) = r
   \<and> last_response (add_assistant_message ctx m None t) = None
   \<and> last_response
        (add_assistant_message (add_assistant_message ctx m1 (Some d) t1) m2 None t2) = None"
  by (simp add: add_assistant_message_def assistant_turn_def)

section \<open>Dispatcher: unknown operations\<close>

text \<open>
  Claim C6. For an operation name outside the eight known kinds, \<open>execute\<close> returns a
  failure whose error text is \<open>Unsupported operation: \<close> followed by that name, and the
  state is the one it started from: no call was made to the client and the identifier
  cache is unchanged.
\<close>

theorem execute_unknown_operation:
  assumes "operation req \<notin>
    {''user'', ''tweets'', ''search'', ''post'', ''like'', ''unlike'', ''timeline'', ''delete''}"
  shows "execute e req s =
    (\<lparr>success = False, data = None,
      error = Some (''Unsupported operation: '' @ operation req)\<rparr>, s)"
  using map_of_operation_map_None [OF assms]
  by (simp add: execute_def execute_try_def TwitterResponse_def)

theorem execute_unknown_operation_witness:
  "''retweet'' \<notin>
     {''user'', ''tweets'', ''search'', ''post'', ''like'', ''unlike'', ''timeline'', ''delete''}
   \<and> execute (env_of api_user_payload) \<lparr>operation = ''retweet'', params = []\<rparr> state_bob_cached =
     (\<lparr>success = False, data = None, error = Some ''Unsupported operation: retweet''\<rparr>,
      state_bob_cached)"
  using execute_unknown_operation
    [of "\<lparr>operation = ''retweet'', params = []\<rparr>" "env_of api_user_payload" state_bob_cached]
  by simp

section \<open>Dispatcher: missing required parameters\<close>

text \<open>
  Claim C8. For a known operation kind whose parameters lack the key that the kind
  requires (\<open>username\<close> for user and tweets, \<open>query\<close> for search, \<open>text\<close> for post,
  \<open>tweet_id\<close> for like, unlike and delete), \<open>execute\<close> does not raise: it returns a
  failure response. Its error text is that of the \<open>KeyError\<close>, the missing key between
  quotes; no call is made to the client and the cache is unchanged.
\<close>

theorem execute_missing_required_key:
  assumes "(operation req, k) \<in>
      {(''user'', ''username''), (''tweets'', ''username''), (''search'', ''query''),
       (''post'', ''text''), (''like'', ''tweet_id''), (''unlike'', ''tweet_id''),
       (''delete'', ''tweet_id'')}"
    and "\<not> has_key (params req) k"
  shows "execute e req s = (\<lparr>success = False, data = None, error = Some (quoted k)\<rparr>, s)"
  using assms
  by (auto simp add: execute_def execute_try_def operation_map_def with_key_missing
      handle_tweets_missing)

theorem execute_missing_required_key_witness:
  "(''search'', ''query'') \<in>
      {(''user'', ''username''), (''tweets'', ''username''), (''search'', ''query''),
       (''post'', ''text''), (''like'', ''tweet_id''), (''unlike'', ''tweet_id''),
       (''delete'', ''tweet_id'')}
   \<and> \<not> has_key [(''limit'', PInt 5)] ''query''
   \<and> execute (env_of api_user_payload) \<lparr>operation = ''search'', params = [(''limit'', PInt 5)]\<rparr>
        empty_state =
      (\<lparr>success = False, data = None, error = Some (quoted ''query'')\<rparr>, empty_state)"
  using execute_missing_required_key
    [of "\<lparr>operation = ''search'', params = [(''limit'', PInt 5)]\<rparr>" "''query''"
        "env_of api_user_payload" empty_state]
  by (simp add: has_key_def)

section \<open>Dispatcher: facts about the state\<close>

lemma cache_user_id_other:
  "operation req \<noteq> ''user'' \<Longrightarrow> cache_user_id e req result s = (Inr (), s)"
  by (simp add: cache_user_id_def)

lemma cache_user_id_error:
  "has_key result ''error'' \<Longrightarrow> cache_user_id e req result s = (Inr (), s)"
  by (simp add: cache_user_id_def)

lemma snd_execute: "snd (execute e req s) = snd (execute_try e req s)"
  by (simp add: execute_def split: prod.splits sum.splits)

lemma map_of_tweets: "map_of operation_map ''tweets'' = Some handle_tweets"
  by (simp add: operation_map_def)

lemma snd_execute_try_tweets:
  "operation req = ''tweets'' \<Longrightarrow>
   snd (execute_try e req s) = snd (handle_tweets e (params req) s)"
  by (simp add: execute_try_def map_of_tweets cache_user_id_other split: prod.splits sum.splits)

text \<open>The two paths of \<open>handle_tweets\<close> for a string username: with a true cached value
  and without one.\<close>

lemma handle_tweets_hit:
  assumes "map_of p ''username'' = Some (PStr u)" and "truthy (cache_get s (str_lower e u))"
  shows "handle_tweets e p s =
    invoke e (GetUserTweets (cache_get s (str_lower e u)) (get_default p ''limit'' (PInt 10))) s"
  using assms by (simp add: handle_tweets_def getitem_def)

lemma handle_tweets_miss:
  assumes "map_of p ''username'' = Some (PStr u)" and "\<not> truthy (cache_get s (str_lower e u))"
  shows "handle_tweets e p s =
    (case api e (GetUserInfo (PStr (str_lower e u))) of
       Inl x \<Rightarrow> (Inl x, s\<lparr>calls := calls s @ [GetUserInfo (PStr (str_lower e u))]\<rparr>)
     | Inr user_result \<Rightarrow>
         if has_key user_result ''error''
         then (Inr user_result, s\<lparr>calls := calls s @ [GetUserInfo (PStr (str_lower e u))]\<rparr>)
         else
           (case getitem user_result ''data'' of
              Inl x \<Rightarrow> (Inl x, s\<lparr>calls := calls s @ [GetUserInfo (PStr (str_lower e u))]\<rparr>)
            | Inr d \<Rightarrow>
                (case py_subscript d ''id'' of
                   Inl x \<Rightarrow> (Inl x, s\<lparr>calls := calls s @ [GetUserInfo (PStr (str_lower e u))]\<rparr>)
                 | Inr fresh \<Rightarrow>
                     (api e (GetUserTweets fresh (get_default p ''limit'' (PInt 10))),
                      s\<lparr>user_id_cache := (user_id_cache s)(str_lower e u \<mapsto> fresh),
                        calls := calls s @ [GetUserInfo (PStr (str_lower e u)),
                          GetUserTweets fresh (get_default p ''limit'' (PInt 10))]\<rparr>))))"
  using assms by (simp add: handle_tweets_def getitem_def invoke_def split: sum.splits)

lemma str_lower_env_of: "str_lower (env_of a) = ascii_lower"
  by (simp add: env_of_def)

lemma lower_Bob: "ascii_lower ''Bob'' = ''bob''"
  by (simp add: ascii_lower_def ascii_lower_char_def)

section \<open>Dispatcher: tweets for a cached user\<close>

text \<open>
  Claim C3, as the code has it. For a tweets operation whose username is a string and
  whose lowercased username is a key of the identifier cache with a value that
  counts as true, \<open>execute\<close> makes exactly one call to the client: get-user-tweets with
  the cached identifier and the limit of the parameters, 10 when the key \<open>limit\<close> is
  absent. The user lookup is not called and the cache is unchanged.
\<close>

theorem execute_tweets_cached:
  assumes "operation req = ''tweets''"
      and "map_of (params req) ''username'' = Some (PStr u)"
      and "user_id_cache s (str_lower e u) = Some uid"
      and "truthy uid"
  shows "calls (snd (execute e req s)) =
           calls s @ [GetUserTweets uid (get_default (params req) ''limit'' (PInt 10))]
       \<and> (\<forall>v. GetUserInfo v \<notin> set (drop (length (calls s)) (calls (snd (execute e req s)))))
       \<and> user_id_cache (snd (execute e req s)) = user_id_cache s"
proof -
  have hit: "cache_get s (str_lower e u) = uid"
    using assms(3) by (simp add: cache_get_def)
  have "snd (execute e req s) =
      s\<lparr>calls := calls s @ [GetUserTweets uid (get_default (params req) ''limit'' (PInt 10))]\<rparr>"
    using assms(1,2,4) hit
    by (simp add: snd_execute snd_execute_try_tweets handle_tweets_hit invoke_def)
  then show ?thesis by simp
qed

theorem execute_tweets_cached_witness:
  "operation \<lparr>operation = ''tweets'', params = [(''username'', PStr ''Bob''), (''limit'', PInt 5)]\<rparr>
     = ''tweets''
   \<and> map_of [(''username'', PStr ''Bob''), (''limit'', PInt 5)] ''username'' = Some (PStr ''Bob'')
   \<and> user_id_cache state_bob_cached (str_lower (env_of api_lookup_then_tweets) ''Bob'') =
       Some (PStr ''7'')
   \<and> truthy (PStr ''7'')
   \<and> calls (snd (execute (env_of api_lookup_then_tweets)
        \<lparr>operation = ''tweets'', params = [(''username'', PStr ''Bob''), (''limit'', PInt 5)]\<rparr>
        state_bob_cached)) = [GetUserTweets (PStr ''7'') (PInt 5)]
   \<and> user_id_cache (snd (execute (env_of api_lookup_then_tweets)
        \<lparr>operation = ''tweets'', params = [(''username'', PStr ''Bob''), (''limit'', PInt 5)]\<rparr>
        state_bob_cached)) = user_id_cache state_bob_cached"
proof -
  let ?req = "\<lparr>operation = ''tweets'',
      params = [(''username'', PStr ''Bob''), (''limit'', PInt 5)]\<rparr>"
  let ?e = "env_of api_lookup_then_tweets"
  have hyps: "operation ?req = ''tweets''"
      "map_of (params ?req) ''username'' = Some (PStr ''Bob'')"
      "user_id_cache state_bob_cached (str_lower ?e ''Bob'') = Some (PStr ''7'')"
      "truthy (PStr ''7'')"
    by (simp_all add: str_lower_env_of lower_Bob state_bob_cached_def)
  show ?thesis
    using hyps execute_tweets_cached [OF hyps]
    by (simp add: state_bob_cached_def get_default_def)
qed

text \<open>
  The claim as written asks only that the lowercased username be a key of the cache.
  With the key \<open>bob\<close> present and mapped to the empty string, the user lookup is called.
\<close>

theorem execute_tweets_cached_key_counterexample:
  "user_id_cache state_bob_blank (str_lower (env_of api_lookup_then_tweets) ''Bob'') =
     Some (PStr [])
   \<and> calls (snd (execute (env_of api_lookup_then_tweets)
        \<lparr>operation = ''tweets'', params = [(''username'', PStr ''Bob'')]\<rparr> state_bob_blank)) =
       [GetUserInfo (PStr ''bob''), GetUserTweets (PStr ''7'') (PInt 10)]"
  by (simp add: str_lower_env_of lower_Bob state_bob_blank_def snd_execute
      snd_execute_try_tweets handle_tweets_miss cache_get_def env_of_def
      api_lookup_then_tweets_def has_key_def getitem_def get_default_def)

section \<open>Dispatcher: tweets when the inline lookup reports an error\<close>

text \<open>
  Claim C5, as the code has it. For a tweets operation whose username has no true value
  in the cache and whose inline user lookup answers with a dictionary that has the key
  \<open>error\<close>, the handler returns that dictionary as it is and \<open>execute\<close> returns a
  failure response without data. The error of the response is the value reported by
  the lookup when that is a string or \<^verbatim>\<open>None\<close>; a value of another type is rejected by
  the response model and the error is the text of that rejection. The only call made
  is the user lookup: get-user-tweets is not called, and the cache is unchanged.
\<close>

theorem execute_tweets_lookup_error:
  assumes "operation req = ''tweets''"
      and "map_of (params req) ''username'' = Some (PStr u)"
      and "\<not> truthy (cache_get s (str_lower e u))"
      and "api e (GetUserInfo (PStr (str_lower e u))) = Inr user_result"
      and "map_of user_result ''error'' = Some v"
  shows "handle_tweets e (params req) s =
           (Inr user_result, s\<lparr>calls := calls s @ [GetUserInfo (PStr (str_lower e u))]\<rparr>)
       \<and> execute e req s =
           (\<lparr>success = False, data = None,
             error = (case v of PNone \<Rightarrow> None | PStr m \<Rightarrow> Some m
                      | _ \<Rightarrow> Some (error_text e v))\<rparr>,
            s\<lparr>calls := calls s @ [GetUserInfo (PStr (str_lower e u))]\<rparr>)
       \<and> drop (length (calls s)) (calls (snd (execute e req s))) =
           [GetUserInfo (PStr (str_lower e u))]
       \<and> user_id_cache (snd (execute e req s)) = user_id_cache s"
proof -
  have k: "has_key user_result ''error''"
    using assms(5) by (simp add: has_key_def)
  have h: "handle_tweets e (params req) s =
           (Inr user_result, s\<lparr>calls := calls s @ [GetUserInfo (PStr (str_lower e u))]\<rparr>)"
    using assms(2,3,4) k by (simp add: handle_tweets_miss)
  have t: "execute_try e req s =
      (TwitterResponse e False None v,
       s\<lparr>calls := calls s @ [GetUserInfo (PStr (str_lower e u))]\<rparr>)"
    using assms(1,5) k h
    by (simp add: execute_try_def map_of_tweets cache_user_id_other get_default_def)
  have x: "execute e req s =
           (\<lparr>success = False, data = None,
             error = (case v of PNone \<Rightarrow> None | PStr m \<Rightarrow> Some m
                      | _ \<Rightarrow> Some (error_text e v))\<rparr>,
            s\<lparr>calls := calls s @ [GetUserInfo (PStr (str_lower e u))]\<rparr>)"
    using t by (cases v) (simp_all add: execute_def TwitterResponse_def)
  show ?thesis using h x by simp
qed

theorem execute_tweets_lookup_error_witness:
  "operation \<lparr>operation = ''tweets'', params = [(''username'', PStr ''Bob'')]\<rparr> = ''tweets''
   \<and> map_of [(''username'', PStr ''Bob'')] ''username'' = Some (PStr ''Bob'')
   \<and> \<not> truthy (cache_get empty_state (str_lower (env_of api_error) ''Bob''))
   \<and> api (env_of api_error) (GetUserInfo (PStr (str_lower (env_of api_error) ''Bob''))) =
       Inr [(''error'', PStr ''User not found'')]
   \<and> map_of [(''error'', PStr ''User not found'')] ''error'' = Some (PStr ''User not found'')
   \<and> execute (env_of api_error) \<lparr>operation = ''tweets'', params = [(''username'', PStr ''Bob'')]\<rparr>
        empty_state =
      (\<lparr>success = False, data = None, error = Some ''User not found''\<rparr>,
       empty_state\<lparr>calls := [GetUserInfo (PStr ''bob'')]\<rparr>)"
proof -
  let ?req = "\<lparr>operation = ''tweets'', params = [(''username'', PStr ''Bob'')]\<rparr>"
  let ?e = "env_of api_error"
  have hyps: "operation ?req = ''tweets''"
      "map_of (params ?req) ''username'' = Some (PStr ''Bob'')"
      "\<not> truthy (cache_get empty_state (str_lower ?e ''Bob''))"
      "api ?e (GetUserInfo (PStr (str_lower ?e ''Bob''))) =
         Inr [(''error'', PStr ''User not found'')]"
      "map_of [(''error'', PStr ''User not found'')] ''error'' = Some (PStr ''User not found'')"
    by (simp_all add: cache_get_def empty_state_def env_of_def api_error_def)
  note th = execute_tweets_lookup_error [OF hyps]
  have "execute ?e ?req empty_state =
      (\<lparr>success = False, data = None, error = Some ''User not found''\<rparr>,
       empty_state\<lparr>calls := [GetUserInfo (PStr ''bob'')]\<rparr>)"
    using th by (simp add: str_lower_env_of lower_Bob empty_state_def)
  then show ?thesis using hyps by simp
qed

text \<open>
  The claim as written has the error of the lookup returned whatever it is. A lookup
  that reports the number 404 as its error gives a failure whose error is the text of
  the response model's rejection, not the reported value.
\<close>

theorem execute_tweets_lookup_error_counterexample:
  "api (env_of api_error_code) (GetUserInfo (PStr ''bob'')) = Inr [(''error'', PInt 404)]
   \<and> execute (env_of api_error_code)
        \<lparr>operation = ''tweets'', params = [(''username'', PStr ''Bob'')]\<rparr> empty_state =
      (\<lparr>success = False, data = None, error = Some (stub_error_text (PInt 404))\<rparr>,
       empty_state\<lparr>calls := [GetUserInfo (PStr ''bob'')]\<rparr>)"
  by (simp add: execute_def execute_try_def map_of_tweets cache_user_id_other
      handle_tweets_miss cache_get_def str_lower_env_of lower_Bob empty_state_def
      has_key_def get_default_def TwitterResponse_def env_of_def api_error_code_def)

section \<open>Dispatcher: tweets for a user cached with an empty identifier\<close>

text \<open>
  Claim C10, as the code has it. For a tweets operation whose lowercased username is in
  the cache with a value that counts as false (the empty string among them), the
  dispatcher acts as on a miss. The user lookup is the first call made. When the lookup
  succeeds, the cache entry is overwritten with the identifier just returned and
  get-user-tweets is called with it. Whenever get-user-tweets is called, its identifier
  is the one that the lookup returned in this request; so the cached value is passed
  only if the lookup returns that same value again.
\<close>

theorem execute_tweets_blank_cache_entry:
  assumes "operation req = ''tweets''"
      and "map_of (params req) ''username'' = Some (PStr u)"
      and "user_id_cache s (str_lower e u) = Some v"
      and "\<not> truthy v"
  shows "take (Suc (length (calls s))) (calls (snd (execute e req s))) =
           calls s @ [GetUserInfo (PStr (str_lower e u))]
       \<and> (\<forall>r d fresh. api e (GetUserInfo (PStr (str_lower e u))) = Inr r
             \<and> \<not> has_key r ''error''
             \<and> getitem r ''data'' = Inr d \<and> py_subscript d ''id'' = Inr fresh \<longrightarrow>
            user_id_cache (snd (execute e req s)) = (user_id_cache s)(str_lower e u \<mapsto> fresh)
            \<and> calls (snd (execute e req s)) =
                calls s @ [GetUserInfo (PStr (str_lower e u)),
                           GetUserTweets fresh (get_default (params req) ''limit'' (PInt 10))])
       \<and> (\<forall>a l. GetUserTweets a l \<in> set (drop (length (calls s)) (calls (snd (execute e req s))))
             \<longrightarrow>
            (\<exists>r d. api e (GetUserInfo (PStr (str_lower e u))) = Inr r \<and> \<not> has_key r ''error''
               \<and> getitem r ''data'' = Inr d \<and> py_subscript d ''id'' = Inr a))
       \<and> (\<forall>r d fresh l. api e (GetUserInfo (PStr (str_lower e u))) = Inr r
             \<and> getitem r ''data'' = Inr d \<and> py_subscript d ''id'' = Inr fresh \<and> fresh \<noteq> v \<longrightarrow>
            GetUserTweets v l \<notin> set (drop (length (calls s)) (calls (snd (execute e req s)))))"
proof -
  have miss: "\<not> truthy (cache_get s (str_lower e u))"
    using assms(3,4) by (simp add: cache_get_def)
  note ht = handle_tweets_miss [OF assms(2) miss]
  have sn: "snd (execute e req s) = snd (handle_tweets e (params req) s)"
    using assms(1) by (simp add: snd_execute snd_execute_try_tweets)
  show ?thesis unfolding sn ht
    by (auto split: sum.splits)
qed

theorem execute_tweets_blank_cache_entry_witness:
  "operation \<lparr>operation = ''tweets'', params = [(''username'', PStr ''Bob'')]\<rparr> = ''tweets''
   \<and> map_of [(''username'', PStr ''Bob'')] ''username'' = Some (PStr ''Bob'')
   \<and> user_id_cache state_bob_blank (str_lower (env_of api_lookup_then_tweets) ''Bob'') =
       Some (PStr [])
   \<and> \<not> truthy (PStr [])
   \<and> api (env_of api_lookup_then_tweets)
        (GetUserInfo (PStr (str_lower (env_of api_lookup_then_tweets) ''Bob''))) =
       Inr [(''data'', PDict [(''id'', PStr ''7'')])]
   \<and> user_id_cache (snd (execute (env_of api_lookup_then_tweets)
        \<lparr>operation = ''tweets'', params = [(''username'', PStr ''Bob'')]\<rparr> state_bob_blank))
       ''bob'' = Some (PStr ''7'')
   \<and> calls (snd (execute (env_of api_lookup_then_tweets)
        \<lparr>operation = ''tweets'', params = [(''username'', PStr ''Bob'')]\<rparr> state_bob_blank)) =
       [GetUserInfo (PStr ''bob''), GetUserTweets (PStr ''7'') (PInt 10)]"
proof -
  let ?req = "\<lparr>operation = ''tweets'', params = [(''username'', PStr ''Bob'')]\<rparr>"
  let ?e = "env_of api_lookup_then_tweets"
  have hyps: "operation ?req = ''tweets''"
      "map_of (params ?req) ''username'' = Some (PStr ''Bob'')"
      "user_id_cache state_bob_blank (str_lower ?e ''Bob'') = Some (PStr [])"
      "\<not> truthy (PStr [])"
    by (simp_all add: state_bob_blank_def str_lower_env_of lower_Bob)
  have look: "api ?e (GetUserInfo (PStr (str_lower ?e ''Bob''))) =
      Inr [(''data'', PDict [(''id'', PStr ''7'')])]"
    by (simp add: env_of_def api_lookup_then_tweets_def)
  note th = execute_tweets_blank_cache_entry [OF hyps]
  from th have imp: "\<And>r d fresh. api ?e (GetUserInfo (PStr (str_lower ?e ''Bob''))) = Inr r \<Longrightarrow>
      \<not> has_key r ''error'' \<Longrightarrow> getitem r ''data'' = Inr d \<Longrightarrow> py_subscript d ''id'' = Inr fresh \<Longrightarrow>
      user_id_cache (snd (execute ?e ?req state_bob_blank)) =
        (user_id_cache state_bob_blank)(str_lower ?e ''Bob'' \<mapsto> fresh)
      \<and> calls (snd (execute ?e ?req state_bob_blank)) =
          calls state_bob_blank @ [GetUserInfo (PStr (str_lower ?e ''Bob'')),
            GetUserTweets fresh (get_default (params ?req) ''limit'' (PInt 10))]"
    by blast
  have "user_id_cache (snd (execute ?e ?req state_bob_blank)) =
        (user_id_cache state_bob_blank)(str_lower ?e ''Bob'' \<mapsto> PStr ''7'')
      \<and> calls (snd (execute ?e ?req state_bob_blank)) =
          calls state_bob_blank @ [GetUserInfo (PStr (str_lower ?e ''Bob'')),
            GetUserTweets (PStr ''7'') (get_default (params ?req) ''limit'' (PInt 10))]"
    using look
      imp [of "[(''data'', PDict [(''id'', PStr ''7'')])]" "PDict [(''id'', PStr ''7'')]" "PStr ''7''"]
    by (simp add: has_key_def getitem_def)
  then show ?thesis using hyps look
    by (simp add: str_lower_env_of lower_Bob state_bob_blank_def get_default_def)
qed

text \<open>
  The claim as written says that the cached empty value is never passed to
  get-user-tweets. A user request whose lookup returns the empty string as identifier
  leaves the blank entry in the cache; when the lookup of the tweets request returns the
  empty string again, get-user-tweets is called with it and the entry stays blank.
\<close>

theorem execute_tweets_blank_cache_entry_counterexample:
  "user_id_cache (snd (execute (env_of api_blank_id)
      \<lparr>operation = ''user'', params = [(''username'', PStr ''Bob'')]\<rparr> empty_state)) =
     user_id_cache state_bob_blank
   \<and> user_id_cache state_bob_blank (str_lower (env_of api_blank_id) ''Bob'') = Some (PStr [])
   \<and> calls (snd (execute (env_of api_blank_id)
        \<lparr>operation = ''tweets'', params = [(''username'', PStr ''Bob'')]\<rparr> state_bob_blank)) =
       [GetUserInfo (PStr ''bob''), GetUserTweets (PStr []) (PInt 10)]
   \<and> user_id_cache (snd (execute (env_of api_blank_id)
        \<lparr>operation = ''tweets'', params = [(''username'', PStr ''Bob'')]\<rparr> state_bob_blank))
       ''bob'' = Some (PStr [])"
proof -
  have made: "user_id_cache (snd (execute (env_of api_blank_id)
      \<lparr>operation = ''user'', params = [(''username'', PStr ''Bob'')]\<rparr> empty_state)) =
     user_id_cache state_bob_blank"
    by (simp add: execute_def execute_try_def operation_map_def with_key_def invoke_def
        getitem_def get_default_def has_key_def cache_user_id_def TwitterResponse_def
        lower_Bob env_of_def api_blank_id_def empty_state_def state_bob_blank_def)
  have blank: "user_id_cache state_bob_blank (str_lower (env_of api_blank_id) ''Bob'') =
      Some (PStr [])"
    by (simp add: str_lower_env_of lower_Bob state_bob_blank_def)
  have after: "snd (execute (env_of api_blank_id)
        \<lparr>operation = ''tweets'', params = [(''username'', PStr ''Bob'')]\<rparr> state_bob_blank) =
      \<lparr>user_id_cache = [''bob'' \<mapsto> PStr []],
        calls = [GetUserInfo (PStr ''bob''), GetUserTweets (PStr []) (PInt 10)]\<rparr>"
    by (simp add: str_lower_env_of lower_Bob state_bob_blank_def snd_execute
        snd_execute_try_tweets handle_tweets_miss cache_get_def env_of_def
        api_blank_id_def has_key_def getitem_def get_default_def)
  show ?thesis using made blank after by simp
qed

section \<open>Dispatcher: the shape of \<open>execute\<close> for a known operation\<close>

lemmas dispatcher_defs =
  execute_def execute_try_def operation_map_def with_key_def invoke_def getitem_def
  get_default_def has_key_def cache_user_id_def cache_get_def TwitterResponse_def

lemmas double_defs =
  env_of_def stub_error_text_def api_user_payload_def api_lookup_then_tweets_def
  api_data_none_def api_error_def api_error_none_def api_raises_def empty_state_def
  state_bob_cached_def state_bob_blank_def

lemma operation_map_known:
  "(map_of operation_map opn \<noteq> None) =
   (opn \<in> {''user'', ''tweets'', ''search'', ''post'', ''like'', ''unlike'', ''timeline'',
            ''delete''})"
  by (simp add: operation_map_def)

text \<open>A response built from an exception, as the \<^verbatim>\<open>except\<close> clause does.\<close>

lemma execute_known:
  assumes "map_of operation_map (operation req) = Some h"
  shows "execute e req s =
    (case h e (params req) s of
       (Inl x, s1) \<Rightarrow> (\<lparr>success = False, data = None, error = Some (str_exn x)\<rparr>, s1)
     | (Inr result, s1) \<Rightarrow>
         (case cache_user_id e req result s1 of
            (Inl x, s2) \<Rightarrow> (\<lparr>success = False, data = None, error = Some (str_exn x)\<rparr>, s2)
          | (Inr u, s2) \<Rightarrow>
              (case TwitterResponse e (\<not> has_key result ''error'')
                      (if \<not> has_key result ''error'' then Some result else None)
                      (get_default result ''error'' PNone) of
                 Inl x \<Rightarrow> (\<lparr>success = False, data = None, error = Some (str_exn x)\<rparr>, s2)
               | Inr r \<Rightarrow> (r, s2))))"
  using assms by (simp add: execute_def execute_try_def split: prod.splits sum.splits)

lemma TwitterResponse_no_error:
  "\<not> has_key result ''error'' \<Longrightarrow>
   TwitterResponse e ok d (get_default result ''error'' PNone) =
     Inr \<lparr>success = ok, data = d, error = None\<rparr>"
  by (simp add: TwitterResponse_def get_default_def has_key_def)

lemma TwitterResponse_error:
  "map_of result ''error'' = Some v \<Longrightarrow>
   TwitterResponse e ok d (get_default result ''error'' PNone) =
     (case v of
        PNone \<Rightarrow> Inr \<lparr>success = ok, data = d, error = None\<rparr>
      | PStr m \<Rightarrow> Inr \<lparr>success = ok, data = d, error = Some m\<rparr>
      | _ \<Rightarrow> Inl (ValidationError (error_text e v)))"
  by (simp add: TwitterResponse_def get_default_def split: pyval.splits)

section \<open>Dispatcher: normalisation of results and exceptions\<close>

text \<open>
  Let the handler of a known operation kind (the external call, for tweets the two-step
  handler) end in state \<open>s1\<close> with outcome \<open>out\<close>. \<open>execute\<close> returns a response in
  every case. If the handler raised, the response is a failure with the text of the
  exception. If it returned a dictionary with the key \<open>error\<close>, the response is a failure
  without data whose error is that value when the value is \<^verbatim>\<open>None\<close> or a string; any
  other value is rejected by the response model and the failure carries the text of
  that rejection. If the dictionary has no key \<open>error\<close>, the response is a success with
  the dictionary as data when the caching step does not raise, and a failure with the
  text of its exception when it does. For every kind but user the caching step does
  nothing.
\<close>

lemma execute_known_outcomes:
  assumes "map_of operation_map (operation req) = Some h"
      and "h e (params req) s = (out, s1)"
  shows "(\<forall>x. out = Inl x \<longrightarrow>
            execute e req s = (\<lparr>success = False, data = None, error = Some (str_exn x)\<rparr>, s1))
       \<and> (\<forall>result. out = Inr result \<and> map_of result ''error'' = Some PNone \<longrightarrow>
            execute e req s = (\<lparr>success = False, data = None, error = None\<rparr>, s1))
       \<and> (\<forall>result m. out = Inr result \<and> map_of result ''error'' = Some (PStr m) \<longrightarrow>
            execute e req s = (\<lparr>success = False, data = None, error = Some m\<rparr>, s1))
       \<and> (\<forall>result v. out = Inr result \<and> map_of result ''error'' = Some v \<and> v \<noteq> PNone
              \<and> (\<forall>m. v \<noteq> PStr m) \<longrightarrow>
            execute e req s =
              (\<lparr>success = False, data = None, error = Some (error_text e v)\<rparr>, s1))
       \<and> (\<forall>result s2. out = Inr result \<and> \<not> has_key result ''error''
              \<and> cache_user_id e req result s1 = (Inr (), s2) \<longrightarrow>
            execute e req s = (\<lparr>success = True, data = Some result, error = None\<rparr>, s2))
       \<and> (\<forall>result x s2. out = Inr result \<and> \<not> has_key result ''error''
              \<and> cache_user_id e req result s1 = (Inl x, s2) \<longrightarrow>
            execute e req s = (\<lparr>success = False, data = None, error = Some (str_exn x)\<rparr>, s2))
       \<and> (\<forall>result. operation req \<noteq> ''user'' \<longrightarrow> cache_user_id e req result s1 = (Inr (), s1))"
proof -
  note ex = execute_known [OF assms(1), of e s, unfolded assms(2)]
  have raised: "\<forall>x. out = Inl x \<longrightarrow>
      execute e req s = (\<lparr>success = False, data = None, error = Some (str_exn x)\<rparr>, s1)"
    using ex by simp
  have err: "execute e req s =
        (case v of
           PNone \<Rightarrow> (\<lparr>success = False, data = None, error = None\<rparr>, s1)
         | PStr m \<Rightarrow> (\<lparr>success = False, data = None, error = Some m\<rparr>, s1)
         | _ \<Rightarrow> (\<lparr>success = False, data = None, error = Some (error_text e v)\<rparr>, s1))"
    if "out = Inr result" and "map_of result ''error'' = Some v" for result v
  proof -
    have k: "has_key result ''error''" using that(2) by (simp add: has_key_def)
    show ?thesis
      using ex that(1) k
      by (simp add: cache_user_id_error TwitterResponse_error [OF that(2)] split: pyval.splits)
  qed
  have err_none: "\<forall>result. out = Inr result \<and> map_of result ''error'' = Some PNone \<longrightarrow>
      execute e req s = (\<lparr>success = False, data = None, error = None\<rparr>, s1)"
    using err by fastforce
  have err_str: "\<forall>result m. out = Inr result \<and> map_of result ''error'' = Some (PStr m) \<longrightarrow>
      execute e req s = (\<lparr>success = False, data = None, error = Some m\<rparr>, s1)"
    using err by fastforce
  have err_other: "\<forall>result v. out = Inr result \<and> map_of result ''error'' = Some v \<and> v \<noteq> PNone
        \<and> (\<forall>m. v \<noteq> PStr m) \<longrightarrow>
      execute e req s = (\<lparr>success = False, data = None, error = Some (error_text e v)\<rparr>, s1)"
  proof (intro allI impI)
    fix result v
    assume a: "out = Inr result \<and> map_of result ''error'' = Some v \<and> v \<noteq> PNone
        \<and> (\<forall>m. v \<noteq> PStr m)"
    then show "execute e req s =
        (\<lparr>success = False, data = None, error = Some (error_text e v)\<rparr>, s1)"
      using err [of result v] by (cases v) simp_all
  qed
  have ok: "\<forall>result s2. out = Inr result \<and> \<not> has_key result ''error''
        \<and> cache_user_id e req result s1 = (Inr (), s2) \<longrightarrow>
      execute e req s = (\<lparr>success = True, data = Some result, error = None\<rparr>, s2)"
    using ex by (simp add: TwitterResponse_no_error)
  have cache_raised: "\<forall>result x s2. out = Inr result \<and> \<not> has_key result ''error''
        \<and> cache_user_id e req result s1 = (Inl x, s2) \<longrightarrow>
      execute e req s = (\<lparr>success = False, data = None, error = Some (str_exn x)\<rparr>, s2)"
    using ex by simp
  have other: "\<forall>result. operation req \<noteq> ''user'' \<longrightarrow> cache_user_id e req result s1 = (Inr (), s1)"
    by (simp add: cache_user_id_other)
  show ?thesis
    using raised err_none err_str err_other ok cache_raised other by blast
qed

lemma execute_known_outcomes_examples:
  "execute (env_of api_raises) \<lparr>operation = ''like'', params = [(''tweet_id'', PStr ''1'')]\<rparr>
     empty_state =
     (\<lparr>success = False, data = None, error = Some ''connection reset''\<rparr>,
      empty_state\<lparr>calls := [LikeTweet (PStr ''1'')]\<rparr>)
   \<and> execute (env_of api_error) \<lparr>operation = ''search'', params = [(''query'', PStr ''cats'')]\<rparr>
       empty_state =
     (\<lparr>success = False, data = None, error = Some ''User not found''\<rparr>,
      empty_state\<lparr>calls := [SearchTweets (PStr ''cats'') (PInt 10)]\<rparr>)
   \<and> execute (env_of api_lookup_then_tweets) \<lparr>operation = ''timeline'', params = []\<rparr>
       empty_state =
     (\<lparr>success = True, data = Some [(''data'', PList [])], error = None\<rparr>,
      empty_state\<lparr>calls := [GetHomeTimeline (PInt 20)]\<rparr>)"
proof -
  have like: "map_of operation_map
        (operation \<lparr>operation = ''like'', params = [(''tweet_id'', PStr ''1'')]\<rparr>) =
      Some (with_key ''tweet_id'' (\<lambda>v p. LikeTweet v))"
    by (simp add: operation_map_def)
  have like_out: "with_key ''tweet_id'' (\<lambda>v p. LikeTweet v) (env_of api_raises)
        (params \<lparr>operation = ''like'', params = [(''tweet_id'', PStr ''1'')]\<rparr>) empty_state =
      (Inl (ExternalError ''connection reset''), empty_state\<lparr>calls := [LikeTweet (PStr ''1'')]\<rparr>)"
    by (simp add: with_key_def getitem_def invoke_def double_defs)
  have search: "map_of operation_map
        (operation \<lparr>operation = ''search'', params = [(''query'', PStr ''cats'')]\<rparr>) =
      Some (with_key ''query'' (\<lambda>v p. SearchTweets v (get_default p ''limit'' (PInt 10))))"
    by (simp add: operation_map_def)
  have search_out: "with_key ''query'' (\<lambda>v p. SearchTweets v (get_default p ''limit'' (PInt 10)))
        (env_of api_error)
        (params \<lparr>operation = ''search'', params = [(''query'', PStr ''cats'')]\<rparr>) empty_state =
      (Inr [(''error'', PStr ''User not found'')],
       empty_state\<lparr>calls := [SearchTweets (PStr ''cats'') (PInt 10)]\<rparr>)"
    by (simp add: with_key_def getitem_def get_default_def invoke_def double_defs)
  have timeline: "map_of operation_map (operation \<lparr>operation = ''timeline'', params = []\<rparr>) =
      Some (\<lambda>e p s. invoke e (GetHomeTimeline (get_default p ''limit'' (PInt 20))) s)"
    by (simp add: operation_map_def)
  have timeline_out: "(\<lambda>e p s. invoke e (GetHomeTimeline (get_default p ''limit'' (PInt 20))) s)
        (env_of api_lookup_then_tweets) (params \<lparr>operation = ''timeline'', params = []\<rparr>)
        empty_state =
      (Inr [(''data'', PList [])], empty_state\<lparr>calls := [GetHomeTimeline (PInt 20)]\<rparr>)"
    by (simp add: get_default_def invoke_def double_defs)
  have r1: "execute (env_of api_raises)
      \<lparr>operation = ''like'', params = [(''tweet_id'', PStr ''1'')]\<rparr> empty_state =
     (\<lparr>success = False, data = None, error = Some ''connection reset''\<rparr>,
      empty_state\<lparr>calls := [LikeTweet (PStr ''1'')]\<rparr>)"
    using execute_known_outcomes [OF like like_out] by simp
  have r2: "execute (env_of api_error)
      \<lparr>operation = ''search'', params = [(''query'', PStr ''cats'')]\<rparr> empty_state =
     (\<lparr>success = False, data = None, error = Some ''User not found''\<rparr>,
      empty_state\<lparr>calls := [SearchTweets (PStr ''cats'') (PInt 10)]\<rparr>)"
    using execute_known_outcomes [OF search search_out] by simp
  have r3: "execute (env_of api_lookup_then_tweets) \<lparr>operation = ''timeline'', params = []\<rparr>
      empty_state =
     (\<lparr>success = True, data = Some [(''data'', PList [])], error = None\<rparr>,
      empty_state\<lparr>calls := [GetHomeTimeline (PInt 20)]\<rparr>)"
    using execute_known_outcomes [OF timeline timeline_out] by (simp add: has_key_def)
  show ?thesis using r1 r2 r3 by simp
qed

text \<open>
  Claim C1 at a user request. The claim promises a success with the returned dictionary
  as data whenever the external call returns a dictionary without the key \<open>error\<close>.
  A user lookup that answers \<^verbatim>\<open>{'data': None}\<close> ends in a failure: the caching step
  raises on \<^verbatim>\<open>'id' in None\<close> and the \<^verbatim>\<open>except\<close> clause reports it. The same answer to
  a search request is a success. A user lookup for a username given as the number 12345
  that answers with a user payload ends in a failure as well: the caching step raises
  on \<^verbatim>\<open>username.lower()\<close>.
\<close>

theorem execute_user_caching_step_raises:
  "api (env_of api_data_none) (GetUserInfo (PStr ''bob'')) = Inr [(''data'', PNone)]
   \<and> \<not> has_key [(''data'', PNone)] ''error''
   \<and> execute (env_of api_data_none) \<lparr>operation = ''user'', params = [(''username'', PStr ''bob'')]\<rparr>
       empty_state =
     (\<lparr>success = False, data = None,
       error = Some (''argument of type '' @ quoted ''NoneType'' @ '' is not iterable'')\<rparr>,
      empty_state\<lparr>calls := [GetUserInfo (PStr ''bob'')]\<rparr>)
   \<and> execute (env_of api_data_none) \<lparr>operation = ''search'', params = [(''query'', PStr ''bob'')]\<rparr>
       empty_state =
     (\<lparr>success = True, data = Some [(''data'', PNone)], error = None\<rparr>,
      empty_state\<lparr>calls := [SearchTweets (PStr ''bob'') (PInt 10)]\<rparr>)
   \<and> api (env_of api_user_payload) (GetUserInfo (PInt 12345)) =
       Inr [(''data'', PDict [(''id'', PStr ''44196397''), (''name'', PStr ''Elon'')])]
   \<and> \<not> has_key [(''data'', PDict [(''id'', PStr ''44196397''), (''name'', PStr ''Elon'')])] ''error''
   \<and> execute (env_of api_user_payload) \<lparr>operation = ''user'', params = [(''username'', PInt 12345)]\<rparr>
       empty_state =
     (\<lparr>success = False, data = None,
       error = Some (quoted ''int'' @ '' object has no attribute '' @ quoted ''lower'')\<rparr>,
      empty_state\<lparr>calls := [GetUserInfo (PInt 12345)]\<rparr>)"
  by (simp add: dispatcher_defs double_defs)

section \<open>Dispatcher: the invariant of responses\<close>

text \<open>
  Claim C7, as the code has it. Every response of \<open>execute\<close> satisfies: when \<open>success\<close>
  is true, \<open>data\<close> is set and \<open>error\<close> is unset; when \<open>success\<close> is false, \<open>data\<close> is
  unset, and \<open>error\<close> is set unless the handler returned a dictionary whose key \<open>error\<close>
  holds \<^verbatim>\<open>None\<close>.
\<close>

theorem response_invariant:
  "(success (fst (execute e req s)) \<longrightarrow>
      data (fst (execute e req s)) \<noteq> None \<and> error (fst (execute e req s)) = None)
   \<and> (\<not> success (fst (execute e req s)) \<longrightarrow> data (fst (execute e req s)) = None)
   \<and> (\<not> success (fst (execute e req s)) \<and> error (fst (execute e req s)) = None \<longrightarrow>
        (\<exists>h result s1. map_of operation_map (operation req) = Some h
           \<and> h e (params req) s = (Inr result, s1) \<and> map_of result ''error'' = Some PNone))"
proof (cases "map_of operation_map (operation req)")
  case None
  then show ?thesis
    by (simp add: execute_def execute_try_def TwitterResponse_def)
next
  case (Some h)
  obtain out s1 where hd: "h e (params req) s = (out, s1)"
    by (cases "h e (params req) s") auto
  note ex = execute_known [OF Some, of e s, unfolded hd]
  show ?thesis
  proof (cases out)
    case (Inl x)
    then show ?thesis using ex by simp
  next
    case (Inr result)
    obtain c s2 where cd: "cache_user_id e req result s1 = (c, s2)"
      by (cases "cache_user_id e req result s1") auto
    show ?thesis
    proof (cases c)
      case (Inl x)
      then show ?thesis using ex Inr cd by simp
    next
      case Inr_unit: (Inr u)
      show ?thesis
      proof (cases "map_of result ''error''")
        case None
        then have "\<not> has_key result ''error''" by (simp add: has_key_def)
        then show ?thesis
          using ex Inr cd Inr_unit by (simp add: TwitterResponse_no_error)
      next
        case (Some v)
        then have k: "has_key result ''error''" by (simp add: has_key_def)
        show ?thesis
        proof (cases "v = PNone")
          case True
          then show ?thesis
            using ex Inr cd Inr_unit k hd \<open>map_of operation_map (operation req) = Some h\<close> Some
            by (simp add: TwitterResponse_error [OF Some])
        next
          case False
          then show ?thesis
            using ex Inr cd Inr_unit k
            by (cases v) (simp_all add: TwitterResponse_error [OF Some])
        qed
      qed
    qed
  qed
qed

theorem response_invariant_witness:
  "success (fst (execute (env_of api_lookup_then_tweets)
      \<lparr>operation = ''timeline'', params = []\<rparr> empty_state))
   \<and> data (fst (execute (env_of api_lookup_then_tweets)
      \<lparr>operation = ''timeline'', params = []\<rparr> empty_state)) \<noteq> None
   \<and> error (fst (execute (env_of api_lookup_then_tweets)
      \<lparr>operation = ''timeline'', params = []\<rparr> empty_state)) = None
   \<and> \<not> success (fst (execute (env_of api_error)
      \<lparr>operation = ''delete'', params = [(''tweet_id'', PStr ''1'')]\<rparr> empty_state))
   \<and> data (fst (execute (env_of api_error)
      \<lparr>operation = ''delete'', params = [(''tweet_id'', PStr ''1'')]\<rparr> empty_state)) = None
   \<and> error (fst (execute (env_of api_error)
      \<lparr>operation = ''delete'', params = [(''tweet_id'', PStr ''1'')]\<rparr> empty_state)) =
       Some ''User not found''"
proof -
  have ok: "success (fst (execute (env_of api_lookup_then_tweets)
      \<lparr>operation = ''timeline'', params = []\<rparr> empty_state))"
    by (simp add: dispatcher_defs double_defs)
  have bad: "\<not> success (fst (execute (env_of api_error)
      \<lparr>operation = ''delete'', params = [(''tweet_id'', PStr ''1'')]\<rparr> empty_state))"
    by (simp add: dispatcher_defs double_defs)
  have msg: "error (fst (execute (env_of api_error)
      \<lparr>operation = ''delete'', params = [(''tweet_id'', PStr ''1'')]\<rparr> empty_state)) =
       Some ''User not found''"
    by (simp add: dispatcher_defs double_defs)
  show ?thesis
    using ok bad msg
      response_invariant [of "env_of api_lookup_then_tweets"
        "\<lparr>operation = ''timeline'', params = []\<rparr>" empty_state]
      response_invariant [of "env_of api_error"
        "\<lparr>operation = ''delete'', params = [(''tweet_id'', PStr ''1'')]\<rparr>" empty_state]
    by blast
qed

text \<open>
  The claim as written asks for an error in every failure, and lets data and error both
  be absent only for an operation without content. A client that answers a search
  request with \<^verbatim>\<open>{'error': None}\<close> gets a failure with neither data nor error.
\<close>

theorem response_invariant_counterexample:
  "api (env_of api_error_none) (SearchTweets (PStr ''cats'') (PInt 10)) = Inr [(''error'', PNone)]
   \<and> execute (env_of api_error_none) \<lparr>operation = ''search'', params = [(''query'', PStr ''cats'')]\<rparr>
       empty_state =
     (\<lparr>success = False, data = None, error = None\<rparr>,
      empty_state\<lparr>calls := [SearchTweets (PStr ''cats'') (PInt 10)]\<rparr>)"
  by (simp add: dispatcher_defs double_defs)

section \<open>Dispatcher: a user request fills the cache\<close>

lemma map_of_user:
  "map_of operation_map ''user'' = Some (with_key ''username'' (\<lambda>v p. GetUserInfo v))"
  by (simp add: operation_map_def)

text \<open>A user request for a non-empty string username whose lookup returns an identifier.\<close>

lemma execute_user_success:
  assumes "operation req = ''user''"
      and "map_of (params req) ''username'' = Some (PStr u)"
      and "u \<noteq> []"
      and "api e (GetUserInfo (PStr u)) = Inr result"
      and "\<not> has_key result ''error''"
      and "map_of result ''data'' = Some (PDict d)"
      and "map_of d ''id'' = Some uid"
  shows "execute e req s =
    (\<lparr>success = True, data = Some result, error = None\<rparr>,
     s\<lparr>user_id_cache := (user_id_cache s)(str_lower e u \<mapsto> uid),
       calls := calls s @ [GetUserInfo (PStr u)]\<rparr>)"
proof -
  have h: "with_key ''username'' (\<lambda>v p. GetUserInfo v) e (params req) s =
      (Inr result, s\<lparr>calls := calls s @ [GetUserInfo (PStr u)]\<rparr>)"
    using assms(2,4) by (simp add: with_key_def getitem_def invoke_def)
  have c: "cache_user_id e req result (s\<lparr>calls := calls s @ [GetUserInfo (PStr u)]\<rparr>) =
      (Inr (), s\<lparr>user_id_cache := (user_id_cache s)(str_lower e u \<mapsto> uid),
                 calls := calls s @ [GetUserInfo (PStr u)]\<rparr>)"
    using assms by (simp add: cache_user_id_def has_key_def get_default_def getitem_def)
  have m: "map_of operation_map (operation req) =
      Some (with_key ''username'' (\<lambda>v p. GetUserInfo v))"
    using assms(1) by (simp add: map_of_user)
  show ?thesis
    using execute_known [OF m, of e s] h c assms(5)
    by (simp add: TwitterResponse_no_error)
qed

lemma snd_execute_tweets_hit:
  assumes "operation req = ''tweets''"
      and "map_of (params req) ''username'' = Some (PStr u)"
      and "user_id_cache s (str_lower e u) = Some uid"
      and "truthy uid"
  shows "snd (execute e req s) =
      s\<lparr>calls := calls s @ [GetUserTweets uid (get_default (params req) ''limit'' (PInt 10))]\<rparr>"
proof -
  have hit: "cache_get s (str_lower e u) = uid"
    using assms(3) by (simp add: cache_get_def)
  show ?thesis
    using assms(1,2,4) hit
    by (simp add: snd_execute snd_execute_try_tweets handle_tweets_hit invoke_def)
qed

lemma lower_ElonMusk: "ascii_lower ''ElonMusk'' = ''elonmusk''" "ascii_lower ''elonmusk'' = ''elonmusk''"
  by (simp_all add: ascii_lower_def ascii_lower_char_def)

text \<open>
  Claim C4, as the code has it. For a user operation with a non-empty string username
  whose lookup succeeds and returns data with an identifier, the response is a success
  and the cache afterwards is the old one with the lowercased username mapped to that
  identifier. Every spelling of the username that differs only in letter case reads the
  same slot: a later user request under such a spelling overwrites that entry, and a
  later tweets request under such a spelling takes the identifier from it without
  calling the user lookup (when the identifier counts as true).
\<close>

theorem execute_user_caches_id:
  assumes "operation req = ''user''"
      and "map_of (params req) ''username'' = Some (PStr u)"
      and "u \<noteq> []"
      and "api e (GetUserInfo (PStr u)) = Inr result"
      and "\<not> has_key result ''error''"
      and "map_of result ''data'' = Some (PDict d)"
      and "map_of d ''id'' = Some uid"
  shows "success (fst (execute e req s))
       \<and> user_id_cache (snd (execute e req s)) = (user_id_cache s)(str_lower e u \<mapsto> uid)
       \<and> (\<forall>u'. str_lower e u' = str_lower e u \<longrightarrow>
             user_id_cache (snd (execute e req s)) (str_lower e u') = Some uid)
       \<and> (\<forall>e' req' u' result' d' uid'.
             str_lower e' = str_lower e
             \<and> operation req' = ''user'' \<and> map_of (params req') ''username'' = Some (PStr u')
             \<and> u' \<noteq> [] \<and> str_lower e u' = str_lower e u
             \<and> api e' (GetUserInfo (PStr u')) = Inr result'
             \<and> \<not> has_key result' ''error'' \<and> map_of result' ''data'' = Some (PDict d')
             \<and> map_of d' ''id'' = Some uid' \<longrightarrow>
             user_id_cache (snd (execute e' req' (snd (execute e req s)))) =
               (user_id_cache s)(str_lower e u \<mapsto> uid'))
       \<and> (\<forall>e' req' u'.
             str_lower e' = str_lower e
             \<and> operation req' = ''tweets'' \<and> map_of (params req') ''username'' = Some (PStr u')
             \<and> str_lower e u' = str_lower e u \<and> truthy uid \<longrightarrow>
             calls (snd (execute e' req' (snd (execute e req s)))) =
               calls s @ [GetUserInfo (PStr u),
                 GetUserTweets uid (get_default (params req') ''limit'' (PInt 10))])"
proof -
  note first = execute_user_success [OF assms, of s]
  have a: "success (fst (execute e req s))"
    and b: "user_id_cache (snd (execute e req s)) = (user_id_cache s)(str_lower e u \<mapsto> uid)"
    and cl: "calls (snd (execute e req s)) = calls s @ [GetUserInfo (PStr u)]"
    using first by simp_all
  have c: "\<forall>u'. str_lower e u' = str_lower e u \<longrightarrow>
      user_id_cache (snd (execute e req s)) (str_lower e u') = Some uid"
    using b by simp
  have d: "user_id_cache (snd (execute e' req' (snd (execute e req s)))) =
        (user_id_cache s)(str_lower e u \<mapsto> uid')"
    if "str_lower e' = str_lower e"
      "operation req' = ''user''" "map_of (params req') ''username'' = Some (PStr u')"
      "u' \<noteq> []" "str_lower e u' = str_lower e u" "api e' (GetUserInfo (PStr u')) = Inr result'"
      "\<not> has_key result' ''error''" "map_of result' ''data'' = Some (PDict d')"
      "map_of d' ''id'' = Some uid'"
    for e' req' u' result' d' uid'
    using execute_user_success [OF that(2,3,4,6,7,8,9), of "snd (execute e req s)"] b
      that(1,5)
    by simp
  have t: "calls (snd (execute e' req' (snd (execute e req s)))) =
        calls s @ [GetUserInfo (PStr u),
          GetUserTweets uid (get_default (params req') ''limit'' (PInt 10))]"
    if "str_lower e' = str_lower e"
      "operation req' = ''tweets''" "map_of (params req') ''username'' = Some (PStr u')"
      "str_lower e u' = str_lower e u" "truthy uid"
    for e' req' u'
  proof -
    have slot: "user_id_cache (snd (execute e req s)) (str_lower e' u') = Some uid"
      using b that(1,4) by simp
    show ?thesis
      using snd_execute_tweets_hit [OF that(2,3) slot that(5)] cl by simp
  qed
  show ?thesis
    using a b c d t by blast
qed

theorem execute_user_caches_id_witness:
  "map_of [(''username'', PStr ''ElonMusk'')] ''username'' = Some (PStr ''ElonMusk'')
   \<and> ''ElonMusk'' \<noteq> []
   \<and> api (env_of api_user_payload) (GetUserInfo (PStr ''ElonMusk'')) =
       Inr [(''data'', PDict [(''id'', PStr ''44196397''), (''name'', PStr ''Elon'')])]
   \<and> str_lower (env_of api_user_payload) ''elonmusk'' =
       str_lower (env_of api_user_payload) ''ElonMusk''
   \<and> success (fst (execute (env_of api_user_payload)
        \<lparr>operation = ''user'', params = [(''username'', PStr ''ElonMusk'')]\<rparr> empty_state))
   \<and> user_id_cache (snd (execute (env_of api_user_payload)
        \<lparr>operation = ''user'', params = [(''username'', PStr ''ElonMusk'')]\<rparr> empty_state))
       ''elonmusk'' = Some (PStr ''44196397'')
   \<and> calls (snd (execute (env_of api_lookup_then_tweets)
        \<lparr>operation = ''tweets'', params = [(''username'', PStr ''elonmusk''), (''limit'', PInt 5)]\<rparr>
        (snd (execute (env_of api_user_payload)
          \<lparr>operation = ''user'', params = [(''username'', PStr ''ElonMusk'')]\<rparr> empty_state)))) =
       [GetUserInfo (PStr ''ElonMusk''), GetUserTweets (PStr ''44196397'') (PInt 5)]"
proof -
  let ?req = "\<lparr>operation = ''user'', params = [(''username'', PStr ''ElonMusk'')]\<rparr>"
  let ?req' = "\<lparr>operation = ''tweets'',
      params = [(''username'', PStr ''elonmusk''), (''limit'', PInt 5)]\<rparr>"
  let ?e = "env_of api_user_payload"
  let ?e' = "env_of api_lookup_then_tweets"
  let ?payload = "[(''data'', PDict [(''id'', PStr ''44196397''), (''name'', PStr ''Elon'')])]"
  have hyps: "operation ?req = ''user''"
      "map_of (params ?req) ''username'' = Some (PStr ''ElonMusk'')"
      "''ElonMusk'' \<noteq> []"
      "api ?e (GetUserInfo (PStr ''ElonMusk'')) = Inr ?payload"
      "\<not> has_key ?payload ''error''"
      "map_of ?payload ''data'' = Some (PDict [(''id'', PStr ''44196397''), (''name'', PStr ''Elon'')])"
      "map_of [(''id'', PStr ''44196397''), (''name'', PStr ''Elon'')] ''id'' = Some (PStr ''44196397'')"
    by (simp_all add: double_defs has_key_def)
  have same: "str_lower ?e ''elonmusk'' = str_lower ?e ''ElonMusk''"
    by (simp add: str_lower_env_of lower_ElonMusk)
  have later: "str_lower ?e' = str_lower ?e" "operation ?req' = ''tweets''"
      "map_of (params ?req') ''username'' = Some (PStr ''elonmusk'')"
      "truthy (PStr ''44196397'')"
    by (simp_all add: str_lower_env_of)
  note th = execute_user_caches_id [OF hyps, of empty_state]
  have a: "success (fst (execute ?e ?req empty_state))"
    using th by blast
  have b: "user_id_cache (snd (execute ?e ?req empty_state)) ''elonmusk'' = Some (PStr ''44196397'')"
    using th by (simp add: str_lower_env_of lower_ElonMusk)
  have "calls (snd (execute ?e' ?req' (snd (execute ?e ?req empty_state)))) =
         calls empty_state @ [GetUserInfo (PStr ''ElonMusk''),
           GetUserTweets (PStr ''44196397'') (get_default (params ?req') ''limit'' (PInt 10))]"
    using th later same by blast
  then have c: "calls (snd (execute ?e' ?req' (snd (execute ?e ?req empty_state)))) =
      [GetUserInfo (PStr ''ElonMusk''), GetUserTweets (PStr ''44196397'') (PInt 5)]"
    by (simp add: get_default_def empty_state_def)
  show ?thesis using hyps same a b c by simp
qed

text \<open>
  The claim as written covers every user operation that succeeds with an identifier.
  With the empty string as username the guard \<^verbatim>\<open>if username and ...\<close> skips the caching
  step: the response is a success, its data carries an identifier, and the cache has no
  entry for the lowercased username.
\<close>

theorem execute_user_caches_id_counterexample:
  "execute (env_of api_user_payload) \<lparr>operation = ''user'', params = [(''username'', PStr [])]\<rparr>
     empty_state =
     (\<lparr>success = True,
       data = Some [(''data'', PDict [(''id'', PStr ''44196397''), (''name'', PStr ''Elon'')])],
       error = None\<rparr>,
      empty_state\<lparr>calls := [GetUserInfo (PStr [])]\<rparr>)
   \<and> user_id_cache (snd (execute (env_of api_user_payload)
        \<lparr>operation = ''user'', params = [(''username'', PStr [])]\<rparr> empty_state))
       (str_lower (env_of api_user_payload) []) = None"
  by (simp add: dispatcher_defs double_defs ascii_lower_def)

section \<open>Translator: the retry loop\<close>

text \<open>When no attempt is left, the loop ends without a result.\<close>

lemma nlp_loop_no_attempt:
  "max_retries \<le> attempt \<Longrightarrow> nlp_loop n max_retries attempt invoked = (ReturnedNone, invoked)"
  by (simp add: nlp_loop.simps)

text \<open>An attempt that yields a request ends the loop after one more invocation.\<close>

lemma nlp_loop_valid:
  "attempt < max_retries \<Longrightarrow> attempt_once n invoked = Inr req \<Longrightarrow>
   nlp_loop n max_retries attempt invoked = (Returned req, Suc invoked)"
  by (simp add: nlp_loop.simps)

lemma nlp_loop_invalid_last:
  "attempt = max_retries - 1 \<Longrightarrow> attempt_once n invoked = Inl x \<Longrightarrow>
   nlp_loop n max_retries attempt invoked =
     (Raised (RuntimeError (''Failed to process NLP request after '' @ str_int max_retries @
        '' attempts: '' @ str_exn x)), Suc invoked)"
  by (simp add: nlp_loop.simps)

lemma nlp_loop_invalid_retry:
  "attempt < max_retries - 1 \<Longrightarrow> attempt_once n invoked = Inl x \<Longrightarrow>
   nlp_loop n max_retries attempt invoked = nlp_loop n max_retries (attempt + 1) (Suc invoked)"
  by (simp add: nlp_loop.simps)

text \<open>\<open>k\<close> invalid attempts followed by a valid one, all within the bound.\<close>

lemma nlp_loop_succeeds:
  assumes "attempt + int k < max_retries"
      and "\<forall>i<k. \<exists>x. attempt_once n (invoked + i) = Inl x"
      and "attempt_once n (invoked + k) = Inr req"
  shows "nlp_loop n max_retries attempt invoked = (Returned req, invoked + k + 1)"
  using assms
proof (induction k arbitrary: attempt invoked)
  case 0
  then show ?case by (simp add: nlp_loop_valid)
next
  case (Suc k)
  from Suc.prems(2) obtain x where x: "attempt_once n invoked = Inl x"
    by (metis add.right_neutral zero_less_Suc)
  have lt: "attempt < max_retries - 1" using Suc.prems(1) by simp
  have step: "nlp_loop n max_retries attempt invoked =
      nlp_loop n max_retries (attempt + 1) (Suc invoked)"
    by (rule nlp_loop_invalid_retry [OF lt x])
  have p1: "attempt + 1 + int k < max_retries" using Suc.prems(1) by simp
  have p2: "\<forall>i<k. \<exists>x. attempt_once n (Suc invoked + i) = Inl x"
  proof (intro allI impI)
    fix i assume "i < k"
    then have "Suc i < Suc k" by simp
    with Suc.prems(2) have "\<exists>x. attempt_once n (invoked + Suc i) = Inl x" by blast
    then show "\<exists>x. attempt_once n (Suc invoked + i) = Inl x" by simp
  qed
  have p3: "attempt_once n (Suc invoked + k) = Inr req" using Suc.prems(3) by simp
  show ?case using Suc.IH [OF p1 p2 p3] step by simp
qed

text \<open>\<open>Suc k\<close> attempts are left and every one of them is invalid.\<close>

lemma nlp_loop_exhausts:
  assumes "attempt + int k = max_retries - 1"
      and "\<forall>i\<le>k. attempt_once n (invoked + i) = Inl (errs (invoked + i))"
  shows "nlp_loop n max_retries attempt invoked =
     (Raised (RuntimeError (''Failed to process NLP request after '' @ str_int max_retries @
        '' attempts: '' @ str_exn (errs (invoked + k)))), invoked + k + 1)"
  using assms
proof (induction k arbitrary: attempt invoked)
  case 0
  then show ?case by (simp add: nlp_loop_invalid_last)
next
  case (Suc k)
  have x: "attempt_once n invoked = Inl (errs invoked)"
    using Suc.prems(2) [rule_format, of 0] by simp
  have lt: "attempt < max_retries - 1" using Suc.prems(1) by simp
  have step: "nlp_loop n max_retries attempt invoked =
      nlp_loop n max_retries (attempt + 1) (Suc invoked)"
    by (rule nlp_loop_invalid_retry [OF lt x])
  have p1: "attempt + 1 + int k = max_retries - 1" using Suc.prems(1) by simp
  have p2: "\<forall>i\<le>k. attempt_once n (Suc invoked + i) = Inl (errs (Suc invoked + i))"
  proof (intro allI impI)
    fix i assume "i \<le> k"
    then have "Suc i \<le> Suc k" by simp
    with Suc.prems(2) have "attempt_once n (invoked + Suc i) = Inl (errs (invoked + Suc i))"
      by blast
    then show "attempt_once n (Suc invoked + i) = Inl (errs (Suc invoked + i))" by simp
  qed
  show ?case using Suc.IH [OF p1 p2] step by simp
qed

text \<open>The two halves of the retry behaviour, for the whole call.\<close>

lemma process_nlp_request_succeeds:
  assumes "int k < max_retries"
      and "\<forall>i<k. \<exists>x. attempt_once n i = Inl x"
      and "attempt_once n k = Inr req"
  shows "process_nlp_request n max_retries = (Returned req, Suc k)"
  using nlp_loop_succeeds [of 0 k max_retries n 0 req] assms
  by (simp add: process_nlp_request_def)

lemma process_nlp_request_exhausts:
  assumes "1 \<le> max_retries"
      and "\<forall>i. int i < max_retries \<longrightarrow> attempt_once n i = Inl (errs i)"
  shows "process_nlp_request n max_retries =
     (Raised (RuntimeError (''Failed to process NLP request after '' @ str_int max_retries @
        '' attempts: '' @ str_exn (errs (nat (max_retries - 1))))), nat max_retries)"
proof -
  have a: "0 + int (nat (max_retries - 1)) = max_retries - 1" using assms(1) by simp
  have b: "\<forall>i\<le>nat (max_retries - 1). attempt_once n (0 + i) = Inl (errs (0 + i))"
    using assms by auto
  have c: "0 + nat (max_retries - 1) + 1 = nat max_retries" using assms(1) by simp
  show ?thesis
    using nlp_loop_exhausts [OF a b] c by (simp add: process_nlp_request_def)
qed

text \<open>The two stubs of the retry test: invalid twice and then valid, and always invalid.\<close>

lemma process_nlp_request_stubs:
  "process_nlp_request (nlp_of chat_invalid_twice) 3 =
     (Returned \<lparr>operation = ''timeline'', params = []\<rparr>, 3)
   \<and> process_nlp_request (nlp_of chat_always_invalid) 3 =
     (Raised (RuntimeError (''Failed to process NLP request after 3 attempts: '' @
        ''Failed to parse JSON response: Expecting value: line 1 column 1 (char 0)'')), 3)"
  by (simp add: process_nlp_request_def nlp_loop.simps attempt_once_def nlp_of_def
      chat_invalid_twice_def chat_always_invalid_def stub_json_loads_def timeline_json_def
      dq_def TwitterRequest_def str_int_def str_nat.simps)

text \<open>
  With no attempt to make (a bound of zero or less) the loop body never runs: the call
  makes no invocation and ends without a request and without an exception.
\<close>

lemma process_nlp_request_no_attempts:
  "max_retries \<le> 0 \<Longrightarrow> process_nlp_request n max_retries = (ReturnedNone, 0)"
  by (simp add: process_nlp_request_def nlp_loop_no_attempt)

text \<open>The kinds of invalid output, and the valid one.\<close>

lemma attempt_once_invalid:
  "chat n i = ChatRaises x \<Longrightarrow> attempt_once n i = Inl x"
  "chat n i = ChatNoContent \<Longrightarrow>
     attempt_once n i = Inl (ValueError ''Invalid response format from Ollama'')"
  "chat n i = ChatContent [] \<Longrightarrow>
     attempt_once n i = Inl (ValueError ''Invalid response format from Ollama'')"
  "chat n i = ChatContent c \<Longrightarrow> c \<noteq> [] \<Longrightarrow> json_loads n c = JsonDecodeError m \<Longrightarrow>
     attempt_once n i = Inl (ValueError (''Failed to parse JSON response: '' @ m))"
  "chat n i = ChatContent c \<Longrightarrow> c \<noteq> [] \<Longrightarrow> json_loads n c = JsonValue v \<Longrightarrow>
     TwitterRequest n v = Inl y \<Longrightarrow> attempt_once n i = Inl y"
  by (simp_all add: attempt_once_def)

lemma attempt_once_valid:
  "chat n i = ChatContent c \<Longrightarrow> c \<noteq> [] \<Longrightarrow> json_loads n c = JsonValue (PDict d) \<Longrightarrow>
   map_of d ''operation'' = Some (PStr opn) \<Longrightarrow> map_of d ''params'' = Some (PDict p) \<Longrightarrow>
   attempt_once n i = Inr \<lparr>operation = opn, params = p\<rparr>"
  by (simp add: attempt_once_def TwitterRequest_def)

text \<open>
  Claim C2. Let the bound \<open>max_retries\<close> be at least one, and call an attempt invalid
  when the body of the loop raises (the service raised, the reply had no content, the
  text did not parse, or the parsed value had the wrong shape). If the first \<open>k\<close>
  attempts are invalid and attempt \<open>k + 1\<close>, within the bound, is valid, the call returns
  the parsed request after exactly \<open>k + 1\<close> invocations of the service. If every attempt
  is invalid, the call invokes the service exactly \<open>max_retries\<close> times and then raises
  a \<open>RuntimeError\<close> whose message carries the bound and the text of the last error.
\<close>

theorem process_nlp_request_retries:
  assumes "1 \<le> max_retries"
  shows "(\<forall>k req. int k < max_retries \<and> (\<forall>i<k. \<exists>x. attempt_once n i = Inl x)
            \<and> attempt_once n k = Inr req \<longrightarrow>
          process_nlp_request n max_retries = (Returned req, Suc k))
       \<and> (\<forall>errs. (\<forall>i. int i < max_retries \<longrightarrow> attempt_once n i = Inl (errs i)) \<longrightarrow>
          process_nlp_request n max_retries =
            (Raised (RuntimeError (''Failed to process NLP request after '' @
               str_int max_retries @ '' attempts: '' @
               str_exn (errs (nat (max_retries - 1))))), nat max_retries))"
  using assms process_nlp_request_succeeds [of _ max_retries n]
    process_nlp_request_exhausts [of max_retries n]
  by blast

theorem process_nlp_request_retries_witness:
  "(1::int) \<le> 3
   \<and> attempt_once (nlp_of chat_invalid_twice) 0 =
       Inl (ValueError (''Failed to parse JSON response: '' @
         ''Expecting value: line 1 column 1 (char 0)''))
   \<and> attempt_once (nlp_of chat_invalid_twice) 1 =
       Inl (ValueError (''Failed to parse JSON response: '' @
         ''Expecting value: line 1 column 1 (char 0)''))
   \<and> attempt_once (nlp_of chat_invalid_twice) 2 = Inr \<lparr>operation = ''timeline'', params = []\<rparr>
   \<and> process_nlp_request (nlp_of chat_invalid_twice) 3 =
       (Returned \<lparr>operation = ''timeline'', params = []\<rparr>, 3)
   \<and> process_nlp_request (nlp_of chat_always_invalid) 3 =
       (Raised (RuntimeError (''Failed to process NLP request after 3 attempts: '' @
          ''Failed to parse JSON response: Expecting value: line 1 column 1 (char 0)'')), 3)"
proof -
  let ?bad = "ValueError (''Failed to parse JSON response: '' @
         ''Expecting value: line 1 column 1 (char 0)'')"
  let ?req = "\<lparr>operation = ''timeline'', params = []\<rparr>"
  have twice: "attempt_once (nlp_of chat_invalid_twice) i = (if i < 2 then Inl ?bad else Inr ?req)"
    for i
    by (simp add: attempt_once_def nlp_of_def chat_invalid_twice_def stub_json_loads_def
        timeline_json_def dq_def TwitterRequest_def)
  have always: "attempt_once (nlp_of chat_always_invalid) i = Inl ?bad" for i
    by (simp add: attempt_once_def nlp_of_def chat_always_invalid_def stub_json_loads_def
        timeline_json_def dq_def)
  have bound: "(1::int) \<le> 3" by simp
  note th = process_nlp_request_retries [OF bound]
  have first: "\<forall>i<2. \<exists>x. attempt_once (nlp_of chat_invalid_twice) i = Inl x"
    by (simp add: twice)
  have third: "attempt_once (nlp_of chat_invalid_twice) 2 = Inr ?req"
    by (simp add: twice)
  have "int 2 < 3" by simp
  with th [of "nlp_of chat_invalid_twice"] first third
  have ok: "process_nlp_request (nlp_of chat_invalid_twice) 3 = (Returned ?req, Suc 2)"
    by blast
  note exhausted =
    th [of "nlp_of chat_always_invalid", THEN conjunct2, rule_format, of "\<lambda>i. ?bad"]
  have "process_nlp_request (nlp_of chat_always_invalid) 3 =
      (Raised (RuntimeError (''Failed to process NLP request after '' @ str_int 3 @
         '' attempts: '' @ str_exn ?bad)), nat 3)"
    using exhausted always by simp
  then have bad: "process_nlp_request (nlp_of chat_always_invalid) 3 =
       (Raised (RuntimeError (''Failed to process NLP request after 3 attempts: '' @
          ''Failed to parse JSON response: Expecting value: line 1 column 1 (char 0)'')), 3)"
    by (simp add: str_int_def str_nat.simps)
  show ?thesis using ok bad by (simp add: twice)
qed

end
